theory Spec2Isabelle
  imports Complex_Main
begin

section \<open>Iterative atlas removal (segmentation/cardiac/cardiac.py)\<close>

text \<open>
  The development embeds the function \<^verbatim>\<open>IAR\<close> and its helper
  \<^verbatim>\<open>processProbabilityImage\<close>. Python floats are idealised as real numbers,
  except where the source divides by a value that may be zero: there the IEEE results
  (infinities, not-a-number) are written out. Arrays are flattened to lists, cell by
  cell, which is what the source's cell-wise numpy operations and its final
  \<^verbatim>\<open>np.ravel\<close> see.
\<close>

subsection \<open>Values, exceptions and strings\<close>

text \<open>
  The result of a floating-point division: a real number, or one of the three special
  values numpy produces when the divisor is zero (it warns and carries on).
\<close>

datatype npfloat = Finite real | PosInf | NegInf | NaN

definition np_divide :: "real \<Rightarrow> real \<Rightarrow> npfloat" where
  "np_divide a b =
     (if b = 0 then (if a = 0 then NaN else if 0 < a then PosInf else NegInf)
      else Finite (a / b))"

definition isfinite :: "npfloat \<Rightarrow> bool" where
  "isfinite z = (case z of Finite r \<Rightarrow> True | _ \<Rightarrow> False)"

text \<open>\<^verbatim>\<open>result <= outlierLimit\<close>: a comparison with not-a-number is false.\<close>

definition np_le :: "real \<Rightarrow> npfloat \<Rightarrow> bool" where
  "np_le r z = (case z of Finite l \<Rightarrow> r \<le> l | PosInf \<Rightarrow> True | _ \<Rightarrow> False)"

text \<open>Every way the source, or a library it calls, leaves a function without a result.\<close>

datatype exn =
    SystemExit
  | IndexError
  | ValueError
  | AttributeError
  | Collaborator string

text \<open>\<^verbatim>\<open>str.lower()\<close> on the ASCII letters, which is all the method names contain.\<close>

definition lower_char :: "char \<Rightarrow> char" where
  "lower_char c =
     (case map_of (zip ''ABCDEFGHIJKLMNOPQRSTUVWXYZ'' ''abcdefghijklmnopqrstuvwxyz'') c of
        Some l \<Rightarrow> l
      | None \<Rightarrow> c)"

definition lower :: "string \<Rightarrow> string" where
  "lower s = map lower_char s"

subsection \<open>Statistics of numpy\<close>

text \<open>
  \<^verbatim>\<open>np.mean\<close>, \<^verbatim>\<open>np.std\<close> (population form) and \<^verbatim>\<open>np.median\<close> of
  a non-empty list. Of an empty list numpy returns not-a-number; every caller below tests
  for the empty list first.
\<close>

definition mean :: "real list \<Rightarrow> real" where
  "mean xs = sum_list xs / real (length xs)"

definition std :: "real list \<Rightarrow> real" where
  "std xs = sqrt (mean (map (\<lambda>x. \<bar>x - mean xs\<bar>\<^sup>2) xs))"

definition median :: "real list \<Rightarrow> real" where
  "median xs =
     (let s = sort xs; n = length s
      in if odd n then s ! (n div 2) else (s ! (n div 2 - 1) + s ! (n div 2)) / 2)"

text \<open>Lines 220 to 225, for one cell: the median of the distances to the median.\<close>

definition medianAbsoluteDeviation :: "real list \<Rightarrow> real" where
  "medianAbsoluteDeviation data = median (map (\<lambda>x. \<bar>x - median data\<bar>) data)"

text \<open>
  \<^verbatim>\<open>np.percentile(a, q)\<close> with the default linear interpolation, at the position
  \<open>(n - 1) * q / 100\<close> of the sorted values. An empty array has no element to take:
  numpy raises. (No property below rests on the empty case.)
\<close>

definition percentile :: "real list \<Rightarrow> real \<Rightarrow> exn + real" where
  "percentile a q =
     (if a = [] then Inl IndexError
      else
        let s = sort a;
            h = (real (length s) - 1) * q / 100;
            lo = nat \<lfloor>h\<rfloor>;
            hi = min (lo + 1) (length s - 1)
        in Inr (s ! lo + (h - real lo) * (s ! hi - s ! lo)))"

text \<open>
  The cells of a list of grids, one list of values per cell (\<^verbatim>\<open>axis=0\<close>). The grids
  of one iteration all have the shape of the same regular angular grid.
\<close>

definition cells :: "real list list \<Rightarrow> real list list" where
  "cells grids =
     (if grids = [] then [] else map (\<lambda>j. map (\<lambda>g. g ! j) grids) [0..<length (hd grids)])"

text \<open>A Python slice \<^verbatim>\<open>xs[:k]\<close>: a negative \<open>k\<close> counts from the end.\<close>

definition slice_to :: "int \<Rightarrow> 'a list \<Rightarrow> 'a list" where
  "slice_to k xs = (if 0 \<le> k then take (nat k) xs else take (nat (int (length xs) + k)) xs)"

subsection \<open>Grid resolution\<close>

text \<open>
  Lines 259 to 266. The branches are kept in the order of the source: the test against
  12 comes first, the test against 7 is its \<^verbatim>\<open>elif\<close>.
\<close>

definition resolution :: "nat \<Rightarrow> nat" where
  "resolution n = (if n < 12 then 3 else if n < 7 then 6 else 1)"

subsection \<open>Leave-one-out Z-scores\<close>

text \<open>
  Lines 305 to 313. \<open>gValListTest\<close> holds the grids of the other atlases. The zero
  guard assigns \<^verbatim>\<open>gValStd.mean()\<close>, taken over the whole array before any cell is
  overwritten, to the cells that are zero. With no other atlas the mean and the deviation
  of the empty list are not-a-number, and so is every Z-score.
\<close>

definition guard_std :: "real list \<Rightarrow> real list" where
  "guard_std gValStd =
     (if 0 \<in> set gValStd then map (\<lambda>d. if d = 0 then mean gValStd else d) gValStd
      else gValStd)"

definition zScore_std :: "real list \<Rightarrow> real list list \<Rightarrow> npfloat list" where
  "zScore_std gVals gValListTest =
     (if gValListTest = [] then map (\<lambda>g. NaN) gVals
      else
        let gValMean = map mean (cells gValListTest);
            gValStd = guard_std (map std (cells gValListTest))
        in map (\<lambda>(g, m, s). np_divide (g - m) s) (zip gVals (zip gValMean gValStd)))"

text \<open>
  Lines 315 to 327, the same with the median and 1.4826 times the median absolute
  deviation; the zero guard assigns \<^verbatim>\<open>np.median(gValMAD)\<close>.
\<close>

definition guard_MAD :: "real list \<Rightarrow> real list" where
  "guard_MAD gValMAD =
     (if 0 \<in> set gValMAD then map (\<lambda>d. if d = 0 then median gValMAD else d) gValMAD
      else gValMAD)"

definition zScore_MAD :: "real list \<Rightarrow> real list list \<Rightarrow> npfloat list" where
  "zScore_MAD gVals gValListTest =
     (if gValListTest = [] then map (\<lambda>g. NaN) gVals
      else
        let gValMedian = map median (cells gValListTest);
            gValMAD = guard_MAD (map (\<lambda>c. 14826 / 10000 * medianAbsoluteDeviation c)
                                     (cells gValListTest))
        in map (\<lambda>(g, m, s). np_divide (g - m) s) (zip gVals (zip gValMedian gValMAD)))"

subsection \<open>External collaborators\<close>

text \<open>
  What the source calls and does not define: the label combination, the imaging library
  (hole filling, connected components, distance maps), the surface projection and its
  re-gridding (lines 152 to 217, trigonometry and scattered-data interpolation), the
  Gaussian filter, the histogram and the least-squares fit. They are parameters of the
  model; those that can fail return an exception. The structure name is fixed inside them.
\<close>

record 'a env =
  combineLabels :: "(string \<times> 'a) list \<Rightarrow> exn + real list"
  DIR_label :: "'a \<Rightarrow> exn + real list"
  BinaryFillhole :: "real list \<Rightarrow> real list"
  ConnectedComponent :: "real list \<Rightarrow> nat list"
  distanceMap :: "real list \<Rightarrow> exn + real list"
  regridded_distance :: "real list \<Rightarrow> real list \<Rightarrow> nat \<Rightarrow> exn + real list"
  gaussian_filter :: "real \<Rightarrow> real list \<Rightarrow> real list"
  histogram :: "npfloat list \<Rightarrow> real list \<Rightarrow> real list"
  curve_fit :: "real list \<Rightarrow> real list \<Rightarrow> exn + real \<times> real \<times> real"
  norm_pdf :: "real \<Rightarrow> real \<Rightarrow> real \<Rightarrow> real"

subsection \<open>The probability reducer\<close>

text \<open>\<^verbatim>\<open>ndarray.max()\<close> of a non-empty array, and \<^verbatim>\<open>np.argmax\<close>: the first index of the
  largest value.\<close>

definition amax :: "real list \<Rightarrow> real" where
  "amax xs = fold max (tl xs) (hd xs)"

fun argmax :: "nat list \<Rightarrow> nat" where
  "argmax [] = 0"
| "argmax (x # xs) = (if list_all (\<lambda>y. y \<le> x) xs then 0 else Suc (argmax xs))"

text \<open>
  Line 416: under Python 3 the division of an image by a number is
  \<^verbatim>\<open>sitk.DivideReal\<close>, a plain floating-point division of every voxel, with no test
  for a zero divisor. Line 419: \<^verbatim>\<open>BinaryThreshold\<close> keeps the voxels between the
  threshold and its default upper bound 255; not-a-number and the infinities lie in no
  such interval.
\<close>

definition normalise :: "real list \<Rightarrow> npfloat list" where
  "normalise probabilityImage = map (\<lambda>v. np_divide v (amax probabilityImage)) probabilityImage"

definition BinaryThreshold :: "real \<Rightarrow> npfloat list \<Rightarrow> real list" where
  "BinaryThreshold lowerThreshold img =
     map (\<lambda>z. case z of
                 Finite v \<Rightarrow> if lowerThreshold \<le> v \<and> v \<le> 255 then 1 else 0
               | _ \<Rightarrow> 0) img"

text \<open>
  Lines 409 to 439. An image is the list of its voxels; numpy has no maximum of an empty
  array. The labels of the shape statistics are the non-zero labels present, in
  increasing order.
\<close>

definition processProbabilityImage :: "'a env \<Rightarrow> real list \<Rightarrow> real \<Rightarrow> exn + real list" where
  "processProbabilityImage E probabilityImage threshold =
     (if probabilityImage = [] then Inl ValueError
      else
        let binaryImage = BinaryFillhole E (BinaryThreshold threshold (normalise probabilityImage));
            labelledImage = ConnectedComponent E binaryImage;
            labelIndices = sort (remdups (filter (\<lambda>l. l \<noteq> 0) labelledImage));
            voxelCounts = map (count_list labelledImage) labelIndices
        in if voxelCounts = [] then Inr binaryImage
           else
             let largestComponentLabel = labelIndices ! argmax voxelCounts
             in Inr (map (\<lambda>l. if l = largestComponentLabel then 1 else 0) labelledImage))"

subsection \<open>Configuration\<close>

text \<open>The keyword arguments of \<^verbatim>\<open>IAR\<close> that steer the computation.\<close>

record config =
  smoothMaps :: bool
  smoothSigma :: real
  zScore :: string
  outlierMethod :: string
  minBestAtlases :: int
  N_factor :: real

subsection \<open>The Q-value of one atlas\<close>

text \<open>
  Lines 296 to 334: the grids of the other atlases are a copy of the list without entry
  \<open>i\<close>; the filter, when asked for, rebinds the local name \<open>gVals\<close> only.
\<close>

definition zScoreVals :: "'a env \<Rightarrow> config \<Rightarrow> real list list \<Rightarrow> nat \<Rightarrow> exn + npfloat list" where
  "zScoreVals E cfg gValList i =
     (let gValListTest = take i gValList @ drop (Suc i) gValList;
          gVals = (if smoothMaps cfg then gaussian_filter E (smoothSigma cfg) (gValList ! i)
                   else gValList ! i)
      in if lower (zScore cfg) = ''std'' then Inr (zScore_std gVals gValListTest)
         else if lower (zScore cfg) = ''mad'' then Inr (zScore_MAD gVals gValListTest)
         else Inl SystemExit)"

text \<open>Lines 346 to 348: \<^verbatim>\<open>np.linspace(-15,15,501)\<close> and the centres of its 500 bins.\<close>

definition linspace :: "real \<Rightarrow> real \<Rightarrow> nat \<Rightarrow> real list" where
  "linspace start stop num = map (\<lambda>i. start + real i * ((stop - start) / real (num - 1))) [0..<num]"

definition bins :: "real list" where
  "bins = linspace (- 15) 15 501"

definition bin_centers :: "real list" where
  "bin_centers = map (\<lambda>(hi, lo). (hi + lo) / 2) (zip (tl bins) (butlast bins))"

text \<open>\<^verbatim>\<open>np.trapz(y, x)\<close>: the sum of the trapezoids between neighbouring abscissas.\<close>

fun trapz :: "real list \<Rightarrow> real list \<Rightarrow> real" where
  "trapz (y0 # y1 # ys) (x0 # x1 # xs) = (x1 - x0) * (y0 + y1) / 2 + trapz (y1 # ys) (x1 # xs)"
| "trapz ys xs = 0"

text \<open>Lines 352 to 355.\<close>

definition Q_value :: "real list \<Rightarrow> real list \<Rightarrow> real" where
  "Q_value zDensity zIdeal =
     (let zDiff = map (\<lambda>(d, f). \<bar>d - f\<bar>) (zip zDensity zIdeal)
      in trapz (map (\<lambda>(d, c). d * \<bar>c\<bar>\<^sup>2) (zip zDiff bin_centers)) bin_centers)"

text \<open>Line 241.\<close>

definition gaussianCurve :: "'a env \<Rightarrow> real \<Rightarrow> real \<Rightarrow> real \<Rightarrow> real \<Rightarrow> real" where
  "gaussianCurve E x a m s = a * norm_pdf E x m s"

text \<open>
  Lines 296 to 356 for entry \<open>i\<close> of the list of grids. numpy refuses to subtract
  arrays of different lengths.
\<close>

definition Q_atlas :: "'a env \<Rightarrow> config \<Rightarrow> real list list \<Rightarrow> nat \<Rightarrow> exn + real" where
  "Q_atlas E cfg gValList i =
     (case zScoreVals E cfg gValList i of
        Inl e \<Rightarrow> Inl e
      | Inr z \<Rightarrow>
          (let zDensity = histogram E z bins
           in (case curve_fit E bin_centers zDensity of
                 Inl e \<Rightarrow> Inl e
               | Inr (a, m, s) \<Rightarrow>
                   (let zIdeal = map (\<lambda>x. gaussianCurve E x a m s) bin_centers
                    in if length zDensity \<noteq> length zIdeal then Inl ValueError
                       else Inr (Q_value zDensity zIdeal)))))"

fun Q_loop :: "'a env \<Rightarrow> config \<Rightarrow> real list list \<Rightarrow> nat list \<Rightarrow> exn + real list" where
  "Q_loop E cfg gValList [] = Inr []"
| "Q_loop E cfg gValList (i # rest) =
     (case Q_atlas E cfg gValList i of
        Inl e \<Rightarrow> Inl e
      | Inr q \<Rightarrow>
          (case Q_loop E cfg gValList rest of
             Inl e \<Rightarrow> Inl e
           | Inr qs \<Rightarrow> Inr (q # qs)))"

subsection \<open>One iteration\<close>

text \<open>
  Lines 270 to 292: the consensus of the pool, reduced at threshold 1, and its distance
  map; then, for every atlas of the pool in order, its label reduced at threshold 0.1,
  projected and re-gridded at the resolution of the iteration.
\<close>

fun surface_loop :: "'a env \<Rightarrow> nat \<Rightarrow> real list \<Rightarrow> (string \<times> 'a) list \<Rightarrow> exn + real list list" where
  "surface_loop E res referenceDistanceMap [] = Inr []"
| "surface_loop E res referenceDistanceMap ((testId, atlas) # rest) =
     (case DIR_label E atlas of
        Inl e \<Rightarrow> Inl e
      | Inr label \<Rightarrow>
          (case processProbabilityImage E label (1 / 10) of
             Inl e \<Rightarrow> Inl e
           | Inr testVolume \<Rightarrow>
               (case regridded_distance E referenceDistanceMap testVolume res of
                  Inl e \<Rightarrow> Inl e
                | Inr gVals \<Rightarrow>
                    (case surface_loop E res referenceDistanceMap rest of
                       Inl e \<Rightarrow> Inl e
                     | Inr gValList \<Rightarrow> Inr (gVals # gValList)))))"

definition surface_grids :: "'a env \<Rightarrow> nat \<Rightarrow> (string \<times> 'a) list \<Rightarrow> exn + real list list" where
  "surface_grids E res atlasSet =
     (case combineLabels E atlasSet of
        Inl e \<Rightarrow> Inl e
      | Inr probabilityLabel \<Rightarrow>
          (case processProbabilityImage E probabilityLabel 1 of
             Inl e \<Rightarrow> Inl e
           | Inr referenceVolume \<Rightarrow>
               (case distanceMap E referenceVolume of
                  Inl e \<Rightarrow> Inl e
                | Inr referenceDistanceMap \<Rightarrow>
                    surface_loop E res referenceDistanceMap atlasSet)))"

text \<open>
  Lines 256 to 356: the Q-values of the pool, in pool order. The atlas set is a
  dictionary: a list of pairs with distinct identifiers, in insertion order.
\<close>

definition QResults :: "'a env \<Rightarrow> config \<Rightarrow> (string \<times> 'a) list \<Rightarrow> exn + real list" where
  "QResults E cfg atlasSet =
     (case surface_grids E (resolution (length atlasSet)) atlasSet of
        Inl e \<Rightarrow> Inl e
      | Inr gValList \<Rightarrow> Q_loop E cfg gValList [0..<length gValList])"

text \<open>Lines 360 to 370.\<close>

definition bestResults :: "config \<Rightarrow> real list \<Rightarrow> real list" where
  "bestResults cfg RL = slice_to (max (minBestAtlases cfg) (int (length RL) - 3)) (sort RL)"

definition outlierLimit :: "config \<Rightarrow> real list \<Rightarrow> exn + npfloat" where
  "outlierLimit cfg RL =
     (if lower (outlierMethod cfg) = ''iqr'' then
        (case percentile (bestResults cfg RL) 75 of
           Inl e \<Rightarrow> Inl e
         | Inr p75 \<Rightarrow>
             (case percentile (bestResults cfg RL) 25 of
                Inl e \<Rightarrow> Inl e
              | Inr p25 \<Rightarrow> Inr (Finite (p75 + N_factor cfg * (p75 - p25)))))
      else if lower (outlierMethod cfg) = ''std'' then
        Inr (if bestResults cfg RL = [] then NaN
             else Finite (mean (bestResults cfg RL) + N_factor cfg * std (bestResults cfg RL)))
      else Inl SystemExit)"

text \<open>Lines 382 to 389: the identifiers whose Q-value passes \<^verbatim>\<open>result <= outlierLimit\<close>.\<close>

definition keepIdList :: "string list \<Rightarrow> real list \<Rightarrow> npfloat \<Rightarrow> string list" where
  "keepIdList ids RL limit = map fst (filter (\<lambda>(ii, result). np_le result limit) (zip ids RL))"

subsection \<open>The log file and the controller\<close>

text \<open>
  The variable \<open>logFile\<close> is a path, an open file or a closed file. The file holds the
  header and one row per iteration: the iteration index, the identifiers of the pool, the
  Q-values and the threshold (the source formats the numbers to four significant digits).
  The field \<open>entered\<close> is not a variable of the source: it records the pool of every
  call of \<^verbatim>\<open>IAR\<close>, in order.
\<close>

datatype handle = Path | Opened | Closed

datatype logline = Text string | Row nat "string list" "real list" npfloat

record run =
  logFile :: handle
  contents :: "logline list"
  entered :: "string list list"

definition start :: run where
  "start = \<lparr>logFile = Path, contents = [], entered = []\<rparr>"

definition header :: logline where
  "header = Text ''Iteration,Atlases,Qvalue,Threshold''"

text \<open>\<^verbatim>\<open>logFile.write\<close>: a string has no such method, a closed file refuses.\<close>

definition log_write :: "run \<Rightarrow> logline \<Rightarrow> exn + run" where
  "log_write st line =
     (case logFile st of
        Path \<Rightarrow> Inl AttributeError
      | Opened \<Rightarrow> Inr (st\<lparr>contents := contents st @ [line]\<rparr>)
      | Closed \<Rightarrow> Inl ValueError)"

text \<open>
  Lines 244 to 407. The recursive call does not pass \<^verbatim>\<open>singleStep\<close>, which is then
  its default \<^verbatim>\<open>False\<close>.
\<close>

function IAR :: "'a env \<Rightarrow> config \<Rightarrow> bool \<Rightarrow> nat \<Rightarrow> (string \<times> 'a) list \<Rightarrow> run
    \<Rightarrow> (exn + (string \<times> 'a) list) \<times> run" where
  "IAR E cfg singleStep iteration atlasSet st =
     (let st1 = (if iteration = 0 then st\<lparr>logFile := Opened, contents := [header]\<rparr> else st);
          remainingIdList = map fst atlasSet;
          st2 = st1\<lparr>entered := entered st1 @ [remainingIdList]\<rparr>
      in case QResults E cfg atlasSet of
           Inl e \<Rightarrow> (Inl e, st2)
         | Inr RL \<Rightarrow>
             (case outlierLimit cfg RL of
                Inl e \<Rightarrow> (Inl e, st2)
              | Inr limit \<Rightarrow>
                  (case log_write st2 (Row iteration remainingIdList RL limit) of
                     Inl e \<Rightarrow> (Inl e, st2)
                   | Inr st3 \<Rightarrow>
                       if length (keepIdList remainingIdList RL limit) < length remainingIdList
                       then
                         (let atlasSetNew = map (\<lambda>i. (i, the (map_of atlasSet i)))
                                                (keepIdList remainingIdList RL limit)
                          in if singleStep then (Inr atlasSetNew, st3)
                             else IAR E cfg False (iteration + 1) atlasSetNew st3)
                       else (Inr atlasSet, st3\<lparr>logFile := Closed\<rparr>))))"
  by pat_completeness auto
termination
  by (relation "measure (\<lambda>(E, cfg, singleStep, iteration, atlasSet, st). length atlasSet)") auto

declare IAR.simps [simp del]

subsection \<open>A configuration and an environment to run the model on\<close>

text \<open>The default values of the keyword arguments in the signature of \<^verbatim>\<open>IAR\<close>.\<close>

definition defaults :: config where
  "defaults = \<lparr>smoothMaps = False, smoothSigma = 1, zScore = ''MAD'', outlierMethod = ''IQR'',
                minBestAtlases = 10, N_factor = 3 / 2\<rparr>"

text \<open>
  A small instance of the collaborators: an atlas is its own label image, every
  non-zero voxel belongs to one component, the projection returns the reduced label as
  the grid, the filter halves a grid, the fit is flat, and the histogram is flat too: zero
  in every bin when all the Z-scores are finite, one in every bin otherwise.
\<close>

definition toy :: "real list env" where
  "toy = \<lparr>combineLabels = (\<lambda>atlasSet. Inr [1]),
          DIR_label = (\<lambda>atlas. Inr atlas),
          BinaryFillhole = (\<lambda>b. b),
          ConnectedComponent = (\<lambda>b. map (\<lambda>v. if v = 0 then 0 else 1) b),
          distanceMap = (\<lambda>v. Inr v),
          regridded_distance = (\<lambda>referenceDistanceMap testVolume res. Inr testVolume),
          gaussian_filter = (\<lambda>sigma g. map (\<lambda>v. v / 2) g),
          histogram = (\<lambda>z edges. map (\<lambda>c. if list_all isfinite z then 0 else 1) bin_centers),
          curve_fit = (\<lambda>xdata ydata. Inr (0, 0, 1)),
          norm_pdf = (\<lambda>x m s. 0)\<rparr>"

text \<open>
  The Q-value of a histogram that is one in every bin against a fit that is zero, and a
  run of the model: three atlases with the same two-voxel label, a fourth with one voxel
  missing, scored with the standard deviation.
\<close>

definition flat_excess :: real where
  "flat_excess = Q_value (map (\<lambda>c. 1) bin_centers) (map (\<lambda>x. 0) bin_centers)"

definition std_config :: config where
  "std_config = defaults\<lparr>zScore := ''std''\<rparr>"

definition pool4 :: "(string \<times> real list) list" where
  "pool4 = [(''a'', [1, 1]), (''b'', [1, 1]), (''c'', [1, 1]), (''d'', [1, 0])]"

definition pool3 :: "(string \<times> real list) list" where
  "pool3 = [(''a'', [1, 1]), (''b'', [1, 1]), (''c'', [1, 1])]"

section \<open>Properties\<close>

subsection \<open>Grid resolution\<close>

text \<open>
  C2. The claim: a pool of fewer than 7 atlases uses the 6 degree grid, a pool of 7 to 11
  atlases the 3 degree grid, a larger pool the 1 degree grid. The source tests
  \<^verbatim>\<open>len(remainingIdList)<12\<close> before \<^verbatim>\<open>len(remainingIdList)<7\<close>, so the
  second branch is never taken: a pool of 5 atlases is gridded at 3 degrees, not at 6,
  and no pool size \<open>n\<close> is gridded at 6 degrees.
\<close>

theorem resolution_pool_of_five: "resolution 5 = 3 \<and> resolution n \<noteq> 6"
  by (simp add: resolution_def)

subsection \<open>The zero guard of the dispersion\<close>

lemma length_cells: "grids \<noteq> [] \<Longrightarrow> length (cells grids) = length (hd grids)"
  by (simp add: cells_def)

lemma guard_std_zero: "j < length d \<Longrightarrow> d ! j = 0 \<Longrightarrow> guard_std d ! j = mean d"
  by (auto simp: guard_std_def in_set_conv_nth)

lemma guard_MAD_zero: "j < length d \<Longrightarrow> d ! j = 0 \<Longrightarrow> guard_MAD d ! j = median d"
  by (auto simp: guard_MAD_def in_set_conv_nth)

lemma length_guard_std: "length (guard_std d) = length d"
  by (simp add: guard_std_def)

lemma length_guard_MAD: "length (guard_MAD d) = length d"
  by (simp add: guard_MAD_def)

lemma cells_two_by_two: "cells [[0, 0], [0, 4]] = [[0, 0], [0, 4]]"
  by (simp add: cells_def upt_rec)

lemma cells_three_by_three:
  "cells [[0, 0, 0], [0, 1, 2], [0, 2, 4]] = [[0, 0, 0], [0, 1, 2], [0, 2, 4]]"
  by (simp add: cells_def upt_rec)

text \<open>
  C3, as stated: a cell whose dispersion is zero receives the mean (or median) of the
  non-zero dispersions of the grid. It fails: with the two reference grids \<open>[0, 0]\<close> and
  \<open>[0, 4]\<close> the deviations are \<open>[0, 2]\<close>; the zero cell receives their mean 1, taken
  over both cells, while the mean of the non-zero deviations is 2, and the Z-score of an
  own value 1 in that cell is 1 and not 1/2. Likewise for \<open>MAD\<close>: with the reference
  grids \<open>[0, 0, 0]\<close>, \<open>[0, 1, 2]\<close> and \<open>[0, 2, 4]\<close> the scaled deviations are
  0, 1.4826 and 2.9652; the zero cell receives their median 1.4826, while the median of
  the non-zero ones is 2.2239.
\<close>

theorem zero_guard_nonzero_mean_counterexample:
  "map std (cells [[0, 0], [0, 4]]) = [0, 2] \<and>
   guard_std (map std (cells [[0, 0], [0, 4]])) ! 0 = 1 \<and>
   mean (filter (\<lambda>d. d \<noteq> 0) (map std (cells [[0, 0], [0, 4]]))) = 2 \<and>
   zScore_std [1, 1] [[0, 0], [0, 4]] ! 0 = Finite 1 \<and>
   np_divide (1 - mean (cells [[0, 0], [0, 4]] ! 0))
     (mean (filter (\<lambda>d. d \<noteq> 0) (map std (cells [[0, 0], [0, 4]])))) = Finite (1 / 2) \<and>
   map (\<lambda>c. 14826 / 10000 * medianAbsoluteDeviation c)
     (cells [[0, 0, 0], [0, 1, 2], [0, 2, 4]]) = [0, 7413 / 5000, 7413 / 2500] \<and>
   guard_MAD (map (\<lambda>c. 14826 / 10000 * medianAbsoluteDeviation c)
                (cells [[0, 0, 0], [0, 1, 2], [0, 2, 4]])) ! 0 = 7413 / 5000 \<and>
   median (filter (\<lambda>d. d \<noteq> 0)
             (map (\<lambda>c. 14826 / 10000 * medianAbsoluteDeviation c)
                (cells [[0, 0, 0], [0, 1, 2], [0, 2, 4]]))) = 22239 / 10000"
  by (simp add: cells_two_by_two cells_three_by_three std_def mean_def guard_std_def
      zScore_std_def np_divide_def medianAbsoluteDeviation_def median_def guard_MAD_def)

text \<open>
  C3, amended: in a cell whose dispersion estimate is exactly zero, the atlas's own value
  is Z-scored against the mean of all the deviations of the grid (for \<open>std\<close>), or
  against the median of all the scaled median absolute deviations of the grid (for
  \<open>MAD\<close>), the zero cells included.
\<close>

theorem zero_dispersion_substitute:
  assumes "gValListTest \<noteq> []" and "j < length gVals" and "j < length (hd gValListTest)"
  shows "(std (cells gValListTest ! j) = 0 \<longrightarrow>
            zScore_std gVals gValListTest ! j =
              np_divide (gVals ! j - mean (cells gValListTest ! j))
                        (mean (map std (cells gValListTest)))) \<and>
         (medianAbsoluteDeviation (cells gValListTest ! j) = 0 \<longrightarrow>
            zScore_MAD gVals gValListTest ! j =
              np_divide (gVals ! j - median (cells gValListTest ! j))
                        (median (map (\<lambda>c. 14826 / 10000 * medianAbsoluteDeviation c)
                                     (cells gValListTest))))"
proof -
  have len: "j < length (cells gValListTest)"
    using assms by (simp add: length_cells)
  show ?thesis
  proof (intro conjI impI)
    assume z: "std (cells gValListTest ! j) = 0"
    have "guard_std (map std (cells gValListTest)) ! j = mean (map std (cells gValListTest))"
      using len z by (simp add: guard_std_zero)
    then show "zScore_std gVals gValListTest ! j =
        np_divide (gVals ! j - mean (cells gValListTest ! j)) (mean (map std (cells gValListTest)))"
      using assms len by (simp add: zScore_std_def length_guard_std)
  next
    assume z: "medianAbsoluteDeviation (cells gValListTest ! j) = 0"
    let ?d = "map (\<lambda>c. 14826 / 10000 * medianAbsoluteDeviation c) (cells gValListTest)"
    have "guard_MAD ?d ! j = median ?d"
      using len z by (simp add: guard_MAD_zero)
    then show "zScore_MAD gVals gValListTest ! j =
        np_divide (gVals ! j - median (cells gValListTest ! j)) (median ?d)"
      using assms len by (simp add: zScore_MAD_def length_guard_MAD)
  qed
qed

theorem zero_dispersion_substitute_witness:
  "zScore_std [1, 1] [[0, 0], [0, 4]] ! 0 = Finite 1 \<and>
   zScore_MAD [1, 1] [[0, 0], [0, 4]] ! 0 = Finite (10000 / 14826)"
  using zero_dispersion_substitute [of "[[0, 0], [0, 4]]" 0 "[1, 1]"]
  by (simp add: cells_two_by_two std_def mean_def median_def medianAbsoluteDeviation_def
      np_divide_def)

text \<open>
  C4. The claim: when all grids of the leave-one-out set are identical, no division error
  is raised and every Z-score is finite, for both estimators. The division does not raise,
  but the guard replaces the zero dispersions by their own mean (or median), which is
  zero again: with the reference grids \<open>[1, 2]\<close> and \<open>[1, 2]\<close> and the own grid
  \<open>[1, 3]\<close> the Z-scores are not-a-number and infinity.
\<close>

theorem identical_references_nonfinite:
  "zScore_std [1, 3] [[1, 2], [1, 2]] = [NaN, PosInf] \<and>
   zScore_MAD [1, 3] [[1, 2], [1, 2]] = [NaN, PosInf] \<and>
   list_all isfinite (zScore_std [1, 3] [[1, 2], [1, 2]]) = False \<and>
   list_all isfinite (zScore_MAD [1, 3] [[1, 2], [1, 2]]) = False"
  by (simp add: zScore_std_def zScore_MAD_def cells_def upt_rec guard_std_def guard_MAD_def
      std_def mean_def median_def medianAbsoluteDeviation_def np_divide_def isfinite_def)

subsection \<open>Smoothing\<close>

text \<open>
  C10. With \<^verbatim>\<open>smoothMaps\<close> set, the Z-scores of atlas \<open>i\<close> are those computed
  without smoothing from the list of grids in which only entry \<open>i\<close> has been replaced
  by its filtered grid: the filter reaches the grid being scored and none of the grids
  of the leave-one-out set.
\<close>

theorem smoothing_touches_own_grid_only:
  assumes "i < length gValList"
  shows "zScoreVals E (cfg\<lparr>smoothMaps := True\<rparr>) gValList i =
         zScoreVals E (cfg\<lparr>smoothMaps := False\<rparr>)
           (gValList[i := gaussian_filter E (smoothSigma cfg) (gValList ! i)]) i"
  using assms by (simp add: zScoreVals_def cong: if_cong)

theorem smoothing_touches_own_grid_only_witness:
  "zScoreVals toy (defaults\<lparr>zScore := ''std'', smoothMaps := True\<rparr>) [[2], [4], [8]] 0
     = Inr [Finite (- 5 / 2)] \<and>
   zScoreVals toy (defaults\<lparr>zScore := ''std'', smoothMaps := False\<rparr>) [[1], [4], [8]] 0
     = Inr [Finite (- 5 / 2)]"
  using smoothing_touches_own_grid_only
          [of 0 "[[2], [4], [8]]" toy "defaults\<lparr>zScore := ''std''\<rparr>"]
  by (simp add: zScoreVals_def toy_def defaults_def lower_def lower_char_def zScore_std_def
      cells_def upt_rec std_def mean_def guard_std_def np_divide_def)

subsection \<open>The Q-value\<close>

lemma trapz_nonneg: "sorted xs \<Longrightarrow> list_all (\<lambda>y. 0 \<le> y) ys \<Longrightarrow> 0 \<le> trapz ys xs"
  by (induction ys xs rule: trapz.induct) auto

lemma trapz_zero: "list_all (\<lambda>y. y = 0) ys \<Longrightarrow> trapz ys xs = 0"
  by (induction ys xs rule: trapz.induct) auto

lemma length_bins: "length bins = 501"
  by (simp add: bins_def linspace_def)

lemma length_bin_centers: "length bin_centers = 500"
  by (simp add: bin_centers_def length_bins)

lemma nth_bin_centers: "i < 500 \<Longrightarrow> bin_centers ! i = - 15 + (2 * real i + 1) * (3 / 100)"
  by (simp add: bin_centers_def bins_def linspace_def nth_tl nth_butlast field_simps)

lemma sorted_bin_centers: "sorted_wrt (<) bin_centers"
  by (simp add: sorted_wrt_iff_nth_less length_bin_centers nth_bin_centers)

lemma range_bin_centers: "list_all (\<lambda>c. - 15 \<le> c \<and> c \<le> 15) bin_centers"
  unfolding list_all_length
  by (auto simp add: length_bin_centers nth_bin_centers)

lemma weighted_nonneg:
  "list_all (\<lambda>y. 0 \<le> y)
     (map (\<lambda>(d, c). d * \<bar>c\<bar>\<^sup>2)
        (zip (map (\<lambda>(d, f). \<bar>d - f\<bar>) (zip zDensity zIdeal)) (cs :: real list)))"
  by (auto simp: list_all_iff dest!: set_zip_leftD)

lemma Q_value_nonneg: "0 \<le> Q_value zDensity zIdeal"
proof -
  have "sorted bin_centers"
    using sorted_bin_centers by (rule strict_sorted_imp_sorted)
  then show ?thesis
    unfolding Q_value_def Let_def by (rule trapz_nonneg) (rule weighted_nonneg)
qed

lemma Q_value_flat: "Q_value (map (\<lambda>c. 0) cs) (map (\<lambda>x. 0) ds) = 0"
  unfolding Q_value_def Let_def
  by (rule trapz_zero) (auto simp: list_all_iff elim!: in_set_zipE)

lemma Q_atlas_nonneg: "Q_atlas E cfg gValList i = Inr q \<Longrightarrow> 0 \<le> q"
  by (auto simp: Q_atlas_def Let_def Q_value_nonneg split: sum.splits if_splits)

lemma Q_loop_nonneg: "Q_loop E cfg gValList js = Inr qs \<Longrightarrow> list_all (\<lambda>q. 0 \<le> q) qs"
  by (induction js arbitrary: qs) (auto split: sum.splits dest: Q_atlas_nonneg)

lemma Q_loop_length: "Q_loop E cfg gValList js = Inr qs \<Longrightarrow> length qs = length js"
  by (induction js arbitrary: qs) (auto split: sum.splits)

lemma surface_loop_length:
  "surface_loop E res ref atlasSet = Inr gValList \<Longrightarrow> length gValList = length atlasSet"
  by (induction atlasSet arbitrary: gValList) (auto split: sum.splits)

lemma surface_grids_length:
  "surface_grids E res atlasSet = Inr gValList \<Longrightarrow> length gValList = length atlasSet"
  by (auto simp: surface_grids_def split: sum.splits dest: surface_loop_length)

lemma QResults_length: "QResults E cfg atlasSet = Inr RL \<Longrightarrow> length RL = length atlasSet"
  by (auto simp: QResults_def split: sum.splits dest!: Q_loop_length surface_grids_length)

lemma trapz_pos:
  assumes "sorted_wrt (<) (x0 # x1 # xs)" and "list_all (\<lambda>y. 0 \<le> y) (y0 # y1 # ys)" and "0 < y0"
  shows "0 < trapz (y0 # y1 # ys) (x0 # x1 # xs)"
proof -
  have "0 \<le> trapz (y1 # ys) (x1 # xs)"
    using assms(1,2) by (intro trapz_nonneg) (auto simp: strict_sorted_imp_sorted)
  moreover have "0 < (x1 - x0) * (y0 + y1) / 2"
    using assms by simp
  ultimately show ?thesis by simp
qed

lemma bin_centers_Cons:
  "bin_centers = (- 1497 / 100) # (- 1491 / 100) # drop 2 bin_centers"
proof -
  have "drop 1 bin_centers = bin_centers ! 1 # drop 2 bin_centers"
    using Cons_nth_drop_Suc [of 1 bin_centers] by (simp add: length_bin_centers numeral_2_eq_2)
  moreover have "drop 0 bin_centers = bin_centers ! 0 # drop 1 bin_centers"
    using Cons_nth_drop_Suc [of 0 bin_centers] by (simp add: length_bin_centers)
  ultimately have "bin_centers = bin_centers ! 0 # bin_centers ! 1 # drop 2 bin_centers"
    by simp
  then show ?thesis
    by (simp add: nth_bin_centers)
qed

lemma flat_excess_pos: "0 < flat_excess"
proof -
  obtain cs where cs: "bin_centers = (- 1497 / 100) # (- 1491 / 100) # cs"
    using bin_centers_Cons by blast
  have s: "sorted_wrt (<) ((- 1497 / 100) # (- 1491 / 100) # cs)"
    using sorted_bin_centers by (simp only: cs)
  have n: "list_all (\<lambda>y. 0 \<le> y)
     (map (\<lambda>(d, c). d * \<bar>c\<bar>\<^sup>2)
        (zip (map (\<lambda>(d, f). \<bar>d - f\<bar>) (zip (map (\<lambda>c. 1) cs) (map (\<lambda>x. 0) cs))) cs))"
    by (rule weighted_nonneg)
  show ?thesis
    unfolding flat_excess_def Q_value_def Let_def cs
    using s n by (simp del: trapz.simps sorted_wrt.simps add: trapz_pos)
qed

lemma toy_Q_atlas:
  "zScoreVals toy cfg gValList i = Inr z \<Longrightarrow>
     Q_atlas toy cfg gValList i = Inr (if list_all isfinite z then 0 else flat_excess)"
  by (simp add: Q_atlas_def toy_def gaussianCurve_def Q_value_flat flat_excess_def)

lemma toy_grids4: "surface_grids toy r pool4 = Inr [[1, 1], [1, 1], [1, 1], [1, 0]]"
  by (simp add: surface_grids_def toy_def processProbabilityImage_def normalise_def BinaryThreshold_def np_divide_def amax_def pool4_def)

lemma lower_std: "lower (zScore std_config) = ''std''"
  by (simp add: std_config_def defaults_def lower_def lower_char_def)

lemma isfinite_np_divide: "isfinite (np_divide a b) = (b \<noteq> 0)"
  by (simp add: np_divide_def isfinite_def)

lemma finite_abc: "list_all isfinite (zScore_std [1, 1] [[1, 1], [1, 1], [1, 0]])"
  by (simp add: zScore_std_def cells_def upt_rec std_def mean_def guard_std_def isfinite_np_divide
      power2_eq_square)

lemma nonfinite_d: "\<not> list_all isfinite (zScore_std [1, 0] [[1, 1], [1, 1], [1, 1]])"
  by (simp add: zScore_std_def cells_def upt_rec std_def mean_def guard_std_def isfinite_np_divide)

lemma nonfinite_abc: "\<not> list_all isfinite (zScore_std [1, 1] [[1, 1], [1, 1]])"
  by (simp add: zScore_std_def cells_def upt_rec std_def mean_def guard_std_def isfinite_np_divide)

lemma toy_Q_atlas_std:
  "Q_atlas toy std_config gs i =
     Inr (if list_all isfinite (zScore_std (gs ! i) (take i gs @ drop (Suc i) gs)) then 0
          else flat_excess)"
  by (simp add: toy_Q_atlas zScoreVals_def lower_std) (simp add: std_config_def defaults_def)

lemma Q4: "QResults toy std_config pool4 = Inr [0, 0, 0, flat_excess]"
  by (simp add: QResults_def toy_grids4 toy_Q_atlas_std upt_rec finite_abc nonfinite_d)


lemma grids3: "surface_grids toy r [(''a'', [1, 1]), (''b'', [1, 1]), (''c'', [1, 1])]
    = Inr [[1, 1], [1, 1], [1, 1]]"
  by (simp add: surface_grids_def toy_def processProbabilityImage_def normalise_def BinaryThreshold_def np_divide_def amax_def)

lemma Q3: "QResults toy std_config [(''a'', [1, 1]), (''b'', [1, 1]), (''c'', [1, 1])]
    = Inr [flat_excess, flat_excess, flat_excess]"
  by (simp add: QResults_def grids3 toy_Q_atlas_std upt_rec nonfinite_abc)

lemma lower_IQR: "lower (outlierMethod std_config) = ''iqr''"
  by (simp add: std_config_def defaults_def lower_def lower_char_def)

lemma limit4: "outlierLimit std_config [0, 0, 0, flat_excess] = Inr (Finite (5 * flat_excess / 8))"
proof -
  have best: "bestResults std_config [0, 0, 0, flat_excess] = [0, 0, 0, flat_excess]"
    using flat_excess_pos
    by (simp add: bestResults_def slice_to_def std_config_def defaults_def)
  have f: "N_factor std_config = 3 / 2"
    by (simp add: std_config_def defaults_def)
  show ?thesis
    using flat_excess_pos by (simp add: outlierLimit_def lower_IQR percentile_def best f)
qed

lemma limit3: "outlierLimit std_config [flat_excess, flat_excess, flat_excess] = Inr (Finite flat_excess)"
proof -
  have best: "bestResults std_config [flat_excess, flat_excess, flat_excess]
      = [flat_excess, flat_excess, flat_excess]"
    by (simp add: bestResults_def slice_to_def std_config_def defaults_def)
  show ?thesis
    by (simp add: outlierLimit_def lower_IQR percentile_def best)
qed

lemma trapz_as_sum:
  "length ys = length xs \<Longrightarrow>
     trapz ys xs = (\<Sum>k<length xs - 1. (xs ! Suc k - xs ! k) * (ys ! k + ys ! Suc k) / 2)"
proof (induction ys xs rule: trapz.induct)
  case (1 y0 y1 ys x0 x1 xs)
  let ?f = "\<lambda>k. ((x0 # x1 # xs) ! Suc k - (x0 # x1 # xs) ! k) *
                 ((y0 # y1 # ys) ! k + (y0 # y1 # ys) ! Suc k) / 2"
  have "trapz (y1 # ys) (x1 # xs) = (\<Sum>k<length xs. ?f (Suc k))"
    using 1 by simp
  moreover have "(\<Sum>k<Suc (length xs). ?f k) = ?f 0 + (\<Sum>k<length xs. ?f (Suc k))"
    by (rule sum.lessThan_Suc_shift)
  ultimately show ?case
    by (simp del: sum.lessThan_Suc)
qed (auto simp: length_Suc_conv)

lemma Q_value_as_sum:
  assumes "length zDensity = 500" and "length zIdeal = 500"
  shows "Q_value zDensity zIdeal =
    (\<Sum>k<499. (bin_centers ! Suc k - bin_centers ! k) *
        (\<bar>zDensity ! k - zIdeal ! k\<bar> * \<bar>bin_centers ! k\<bar>\<^sup>2 +
         \<bar>zDensity ! Suc k - zIdeal ! Suc k\<bar> * \<bar>bin_centers ! Suc k\<bar>\<^sup>2) / 2)"
proof -
  let ?ys = "map (\<lambda>(d, c). d * \<bar>c\<bar>\<^sup>2)
               (zip (map (\<lambda>(d, f). \<bar>d - f\<bar>) (zip zDensity zIdeal)) bin_centers)"
  have len: "length ?ys = length bin_centers"
    using assms by (simp add: length_bin_centers)
  have nth: "?ys ! k = \<bar>zDensity ! k - zIdeal ! k\<bar> * \<bar>bin_centers ! k\<bar>\<^sup>2" if "k < 500" for k
    using that assms by (simp add: length_bin_centers)
  have "Q_value zDensity zIdeal =
      (\<Sum>k<499. (bin_centers ! Suc k - bin_centers ! k) * (?ys ! k + ?ys ! Suc k) / 2)"
    unfolding Q_value_def Let_def trapz_as_sum [OF len] by (simp add: length_bin_centers)
  also have "\<dots> = (\<Sum>k<499. (bin_centers ! Suc k - bin_centers ! k) *
        (\<bar>zDensity ! k - zIdeal ! k\<bar> * \<bar>bin_centers ! k\<bar>\<^sup>2 +
         \<bar>zDensity ! Suc k - zIdeal ! Suc k\<bar> * \<bar>bin_centers ! Suc k\<bar>\<^sup>2) / 2)"
  proof (rule sum.cong)
    fix k :: nat
    assume "k \<in> {..<499}"
    then have "k < 500" and "Suc k < 500"
      by simp_all
    then show "(bin_centers ! Suc k - bin_centers ! k) * (?ys ! k + ?ys ! Suc k) / 2 =
        (bin_centers ! Suc k - bin_centers ! k) *
        (\<bar>zDensity ! k - zIdeal ! k\<bar> * \<bar>bin_centers ! k\<bar>\<^sup>2 +
         \<bar>zDensity ! Suc k - zIdeal ! Suc k\<bar> * \<bar>bin_centers ! Suc k\<bar>\<^sup>2) / 2"
      by (simp only: nth)
  qed simp
  finally show ?thesis .
qed


lemma Q_atlas_as_sum:
  assumes "Q_atlas E cfg gValList i = Inr q"
  shows "\<exists>z a m s.
           zScoreVals E cfg gValList i = Inr z \<and>
           curve_fit E bin_centers (histogram E z bins) = Inr (a, m, s) \<and>
           q = (\<Sum>k<499. (bin_centers ! Suc k - bin_centers ! k) *
                  (\<bar>histogram E z bins ! k - a * norm_pdf E (bin_centers ! k) m s\<bar>
                     * \<bar>bin_centers ! k\<bar>\<^sup>2 +
                   \<bar>histogram E z bins ! Suc k - a * norm_pdf E (bin_centers ! Suc k) m s\<bar>
                     * \<bar>bin_centers ! Suc k\<bar>\<^sup>2) / 2)"
proof -
  from assms obtain z where z: "zScoreVals E cfg gValList i = Inr z"
    by (auto simp: Q_atlas_def split: sum.splits)
  from assms z obtain a m s where
    p: "curve_fit E bin_centers (histogram E z bins) = Inr (a, m, s)"
    by (auto simp: Q_atlas_def Let_def split: sum.splits)
  let ?zIdeal = "map (\<lambda>x. gaussianCurve E x a m s) bin_centers"
  from assms z p have len: "length (histogram E z bins) = 500"
    and q: "q = Q_value (histogram E z bins) ?zIdeal"
    by (auto simp: Q_atlas_def Let_def length_bin_centers split: if_splits)
  have ideal: "?zIdeal ! k = a * norm_pdf E (bin_centers ! k) m s" if "k < 500" for k
    using that by (simp add: length_bin_centers gaussianCurve_def)
  have "q = (\<Sum>k<499. (bin_centers ! Suc k - bin_centers ! k) *
              (\<bar>histogram E z bins ! k - ?zIdeal ! k\<bar> * \<bar>bin_centers ! k\<bar>\<^sup>2 +
               \<bar>histogram E z bins ! Suc k - ?zIdeal ! Suc k\<bar> * \<bar>bin_centers ! Suc k\<bar>\<^sup>2) / 2)"
    unfolding q by (rule Q_value_as_sum) (simp_all add: len length_bin_centers)
  also have "\<dots> = (\<Sum>k<499. (bin_centers ! Suc k - bin_centers ! k) *
                  (\<bar>histogram E z bins ! k - a * norm_pdf E (bin_centers ! k) m s\<bar>
                     * \<bar>bin_centers ! k\<bar>\<^sup>2 +
                   \<bar>histogram E z bins ! Suc k - a * norm_pdf E (bin_centers ! Suc k) m s\<bar>
                     * \<bar>bin_centers ! Suc k\<bar>\<^sup>2) / 2)"
  proof (rule sum.cong)
    fix k :: nat
    assume "k \<in> {..<499}"
    then have "k < 500" and "Suc k < 500"
      by simp_all
    then show "(bin_centers ! Suc k - bin_centers ! k) *
              (\<bar>histogram E z bins ! k - ?zIdeal ! k\<bar> * \<bar>bin_centers ! k\<bar>\<^sup>2 +
               \<bar>histogram E z bins ! Suc k - ?zIdeal ! Suc k\<bar> * \<bar>bin_centers ! Suc k\<bar>\<^sup>2) / 2 =
          (bin_centers ! Suc k - bin_centers ! k) *
                  (\<bar>histogram E z bins ! k - a * norm_pdf E (bin_centers ! k) m s\<bar>
                     * \<bar>bin_centers ! k\<bar>\<^sup>2 +
                   \<bar>histogram E z bins ! Suc k - a * norm_pdf E (bin_centers ! Suc k) m s\<bar>
                     * \<bar>bin_centers ! Suc k\<bar>\<^sup>2) / 2"
      by (simp only: ideal)
  qed simp
  finally show ?thesis
    using z p by blast
qed

lemma Q_loop_nth:
  "Q_loop E cfg gValList js = Inr qs \<Longrightarrow> k < length js \<Longrightarrow>
     Q_atlas E cfg gValList (js ! k) = Inr (qs ! k)"
proof (induction js arbitrary: qs k)
  case Nil
  then show ?case by simp
next
  case (Cons j js)
  then show ?case
    by (cases k) (auto split: sum.splits)
qed

text \<open>
  C8. Whenever an iteration obtains its Q-values, there is one per atlas of the pool, and
  the Q-value of atlas \<open>i\<close> is the trapezoidal sum, over the 500 bin centres
  \<open>-14.97, -14.91, \<dots>, 14.97\<close> (increasing, inside \<open>[-15, 15]\<close>), of the absolute
  difference between the histogram density of its Z-scores and the fitted curve
  \<open>a * pdf(centre, m, s)\<close>, times the squared absolute value of the centre; it is at
  least 0. The densities are real numbers here.
\<close>

theorem Q_values_nonnegative:
  assumes "QResults E cfg atlasSet = Inr RL"
  shows "\<exists>gValList.
           surface_grids E (resolution (length atlasSet)) atlasSet = Inr gValList \<and>
           length RL = length atlasSet \<and>
           (\<forall>i<length RL.
              0 \<le> RL ! i \<and>
              (\<exists>z a m s.
                 zScoreVals E cfg gValList i = Inr z \<and>
                 curve_fit E bin_centers (histogram E z bins) = Inr (a, m, s) \<and>
                 RL ! i =
                   (\<Sum>k<499. (bin_centers ! Suc k - bin_centers ! k) *
                      (\<bar>histogram E z bins ! k - a * norm_pdf E (bin_centers ! k) m s\<bar>
                         * \<bar>bin_centers ! k\<bar>\<^sup>2 +
                       \<bar>histogram E z bins ! Suc k - a * norm_pdf E (bin_centers ! Suc k) m s\<bar>
                         * \<bar>bin_centers ! Suc k\<bar>\<^sup>2) / 2))) \<and>
           length bin_centers = 500 \<and>
           (\<forall>k<500. bin_centers ! k = - 15 + (2 * real k + 1) * (3 / 100)) \<and>
           sorted_wrt (<) bin_centers \<and>
           list_all (\<lambda>c. - 15 \<le> c \<and> c \<le> 15) bin_centers"
proof -
  from assms obtain gValList where
    g: "surface_grids E (resolution (length atlasSet)) atlasSet = Inr gValList"
    and l: "Q_loop E cfg gValList [0..<length gValList] = Inr RL"
    by (auto simp: QResults_def split: sum.splits)
  have len: "length RL = length gValList"
    using Q_loop_length [OF l] by simp
  have each: "Q_atlas E cfg gValList i = Inr (RL ! i)" if "i < length RL" for i
    using Q_loop_nth [OF l, of i] that len by simp
  have "0 \<le> RL ! i \<and>
        (\<exists>z a m s.
           zScoreVals E cfg gValList i = Inr z \<and>
           curve_fit E bin_centers (histogram E z bins) = Inr (a, m, s) \<and>
           RL ! i =
             (\<Sum>k<499. (bin_centers ! Suc k - bin_centers ! k) *
                (\<bar>histogram E z bins ! k - a * norm_pdf E (bin_centers ! k) m s\<bar>
                   * \<bar>bin_centers ! k\<bar>\<^sup>2 +
                 \<bar>histogram E z bins ! Suc k - a * norm_pdf E (bin_centers ! Suc k) m s\<bar>
                   * \<bar>bin_centers ! Suc k\<bar>\<^sup>2) / 2))"
    if "i < length RL" for i
    using Q_atlas_as_sum [OF each [OF that]] Q_atlas_nonneg [OF each [OF that]] by blast
  moreover have "\<forall>k<500. bin_centers ! k = - 15 + (2 * real k + 1) * (3 / 100)"
    by (simp add: nth_bin_centers)
  ultimately show ?thesis
    using g QResults_length [OF assms] length_bin_centers sorted_bin_centers range_bin_centers
    by blast
qed

theorem Q_values_nonnegative_witness:
  "QResults toy std_config pool4 = Inr [0, 0, 0, flat_excess] \<and>
   list_all (\<lambda>q. 0 \<le> q) [0, 0, 0, flat_excess]"
  using Q_values_nonnegative [OF Q4] Q4 flat_excess_pos by simp

subsection \<open>The probability reducer\<close>





subsection \<open>A run of the model\<close>

text \<open>
  The first iteration removes the atlas that differs; in single-step mode the run returns
  there, otherwise the second iteration removes nothing and ends the run.
\<close>

lemma keep4:
  "keepIdList [''a'', ''b'', ''c'', ''d''] [0, 0, 0, flat_excess] (Finite (5 * flat_excess / 8))
     = [''a'', ''b'', ''c'']"
  using flat_excess_pos by (simp add: keepIdList_def np_le_def)

lemma keep3:
  "keepIdList [''a'', ''b'', ''c''] [flat_excess, flat_excess, flat_excess] (Finite flat_excess)
     = [''a'', ''b'', ''c'']"
  by (simp add: keepIdList_def np_le_def)

lemma run_single_step:
  "IAR toy std_config True 0 pool4 start =
     (Inr pool3,
      \<lparr>logFile = Opened,
       contents = [header, Row 0 [''a'', ''b'', ''c'', ''d''] [0, 0, 0, flat_excess]
                             (Finite (5 * flat_excess / 8))],
       entered = [[''a'', ''b'', ''c'', ''d'']]\<rparr>)"
proof -
  have ids: "map fst pool4 = [''a'', ''b'', ''c'', ''d'']"
    by (simp add: pool4_def)
  have new: "[(''a'', the (map_of pool4 ''a'')), (''b'', the (map_of pool4 ''b'')),
       (''c'', the (map_of pool4 ''c''))] = pool3"
    by (simp add: pool4_def pool3_def)
  show ?thesis
    by (simp add: IAR.simps [of _ _ _ _ pool4] Q4 limit4 ids keep4 new log_write_def start_def Let_def)
qed

lemma run_to_the_end:
  "IAR toy std_config False 0 pool4 start =
     (Inr pool3,
      \<lparr>logFile = Closed,
       contents = [header,
                   Row 0 [''a'', ''b'', ''c'', ''d''] [0, 0, 0, flat_excess]
                     (Finite (5 * flat_excess / 8)),
                   Row 1 [''a'', ''b'', ''c''] [flat_excess, flat_excess, flat_excess]
                     (Finite flat_excess)],
       entered = [[''a'', ''b'', ''c'', ''d''], [''a'', ''b'', ''c'']]\<rparr>)"
proof -
  have ids4: "map fst pool4 = [''a'', ''b'', ''c'', ''d'']"
    by (simp add: pool4_def)
  have ids3: "map fst pool3 = [''a'', ''b'', ''c'']"
    by (simp add: pool3_def)
  have new: "[(''a'', the (map_of pool4 ''a'')), (''b'', the (map_of pool4 ''b'')),
       (''c'', the (map_of pool4 ''c''))] = pool3"
    by (simp add: pool4_def pool3_def)
  have Q3': "QResults toy std_config pool3 = Inr [flat_excess, flat_excess, flat_excess]"
    using Q3 by (simp add: pool3_def)
  have second: "IAR toy std_config False (Suc 0) pool3
      \<lparr>logFile = Opened,
       contents = [header, Row 0 [''a'', ''b'', ''c'', ''d''] [0, 0, 0, flat_excess]
                             (Finite (5 * flat_excess / 8))],
       entered = [[''a'', ''b'', ''c'', ''d'']]\<rparr> =
     (Inr pool3,
      \<lparr>logFile = Closed,
       contents = [header,
                   Row 0 [''a'', ''b'', ''c'', ''d''] [0, 0, 0, flat_excess]
                     (Finite (5 * flat_excess / 8)),
                   Row 1 [''a'', ''b'', ''c''] [flat_excess, flat_excess, flat_excess]
                     (Finite flat_excess)],
       entered = [[''a'', ''b'', ''c'', ''d''], [''a'', ''b'', ''c'']]\<rparr>)"
    by (simp add: IAR.simps [of _ _ _ _ pool3] Q3' limit3 ids3 keep3 log_write_def Let_def)
  show ?thesis
    by (simp add: IAR.simps [of _ _ _ _ pool4] Q4 limit4 ids4 keep4 new log_write_def start_def
        Let_def second)
qed

subsection \<open>Termination of the controller\<close>

lemma entered_log_write: "log_write st line = Inr st' \<Longrightarrow> entered st' = entered st"
  by (auto simp: log_write_def split: handle.splits)

lemma IAR_entered:
  "IAR E cfg ss k atlasSet st = (res, st') \<Longrightarrow>
     \<exists>ps. entered st' = entered st @ map fst atlasSet # ps \<and>
          sorted_wrt (\<lambda>a b. length b < length a) (map fst atlasSet # ps) \<and>
          length ps \<le> length atlasSet \<and>
          (case res of Inl e \<Rightarrow> True
           | Inr final \<Rightarrow> length final \<le> length (last (map fst atlasSet # ps)))"
proof (induction E cfg ss k atlasSet st arbitrary: res st' rule: IAR.induct)
  case (1 E cfg ss k atlasSet st)
  let ?st1 = "if k = 0 then st\<lparr>logFile := Opened, contents := [header]\<rparr> else st"
  let ?ids = "map fst atlasSet"
  let ?st2 = "?st1\<lparr>entered := entered ?st1 @ [?ids]\<rparr>"
  have e2: "entered ?st2 = entered st @ [?ids]" by simp
  note run = "1.prems" [unfolded IAR.simps [of E cfg ss k atlasSet st] Let_def]
  show ?case
  proof (cases "QResults E cfg atlasSet")
    case (Inl e)
    with run have "st' = ?st2" and "res = Inl e" by simp_all
    with e2 show ?thesis by simp
  next
    case RL: (Inr RL)
    show ?thesis
    proof (cases "outlierLimit cfg RL")
      case (Inl e)
      with run RL have "st' = ?st2" and "res = Inl e" by simp_all
      with e2 show ?thesis by simp
    next
      case lim: (Inr limit)
      show ?thesis
      proof (cases "log_write ?st2 (Row k ?ids RL limit)")
        case (Inl e)
        with run RL lim have "st' = ?st2" and "res = Inl e" by simp_all
        with e2 show ?thesis by simp
      next
        case w: (Inr st3)
        have e3: "entered st3 = entered st @ [?ids]"
          using entered_log_write [OF w] e2 by simp
        let ?keep = "keepIdList ?ids RL limit"
        let ?new = "map (\<lambda>i. (i, the (map_of atlasSet i))) ?keep"
        show ?thesis
        proof (cases "length ?keep < length ?ids")
          case False
          with run RL lim w have "st' = st3\<lparr>logFile := Closed\<rparr>" and "res = Inr atlasSet"
            by simp_all
          with e3 show ?thesis by simp
        next
          case shorter: True
          show ?thesis
          proof (cases ss)
            case True
            with run RL lim w shorter have "st' = st3" and "res = Inr ?new" by simp_all
            with e3 shorter show ?thesis by simp
          next
            case False
            with run RL lim w shorter
            have rec: "IAR E cfg False (k + 1) ?new st3 = (res, st')" by simp
            have "\<exists>ps. entered st' = entered st3 @ map fst ?new # ps \<and>
                    sorted_wrt (\<lambda>a b. length b < length a) (map fst ?new # ps) \<and>
                    length ps \<le> length ?new \<and>
                    (case res of Inl e \<Rightarrow> True
                     | Inr final \<Rightarrow> length final \<le> length (last (map fst ?new # ps)))"
              using "1.IH" [OF refl refl refl RL lim w shorter refl False rec] .
            then obtain ps where ps: "entered st' = entered st3 @ map fst ?new # ps"
              "sorted_wrt (\<lambda>a b. length b < length a) (map fst ?new # ps)"
              "length ps \<le> length ?new"
              "case res of Inl e \<Rightarrow> True
               | Inr final \<Rightarrow> length final \<le> length (last (map fst ?new # ps))" by blast
            have "entered st' = entered st @ ?ids # (map fst ?new # ps)"
              using ps(1) e3 by simp
            moreover have "sorted_wrt (\<lambda>a b. length b < length a) (?ids # map fst ?new # ps)"
              using ps(2) shorter by (auto simp: comp_def)
            moreover have "length (map fst ?new # ps) \<le> length atlasSet"
              using ps(3) shorter by simp
            moreover have "case res of Inl e \<Rightarrow> True
                | Inr final \<Rightarrow> length final \<le> length (last (?ids # map fst ?new # ps))"
              using ps(4) by (cases res) simp_all
            ultimately show ?thesis by blast
          qed
        qed
      qed
    qed
  qed
qed

text \<open>
  C1. A run from iteration 0 ends, whatever the pool and the configuration: the model is
  a total function, its recursion descending on the size of the pool. The pools of the
  successive calls begin with the given pool and strictly decrease in size, so there are
  at most (initial pool size) + 1 calls, that is at most (initial pool size) recursive
  ones, and a returned pool is no larger than the pool of the last call.
\<close>

theorem IAR_terminates_within_pool_size:
  "case IAR E cfg ss 0 atlasSet start of
     (res, st) \<Rightarrow>
       hd (entered st) = map fst atlasSet \<and>
       length (entered st) \<le> length atlasSet + 1 \<and>
       sorted_wrt (\<lambda>a b. length b < length a) (entered st) \<and>
       (case res of Inl e \<Rightarrow> True
        | Inr final \<Rightarrow> length final \<le> length (last (entered st)))"
proof -
  obtain res st where run: "IAR E cfg ss 0 atlasSet start = (res, st)"
    by (cases "IAR E cfg ss 0 atlasSet start")
  from IAR_entered [OF run] obtain ps where
    "entered st = entered start @ map fst atlasSet # ps"
    "sorted_wrt (\<lambda>a b. length b < length a) (map fst atlasSet # ps)"
    "length ps \<le> length atlasSet"
    "case res of Inl e \<Rightarrow> True
     | Inr final \<Rightarrow> length final \<le> length (last (map fst atlasSet # ps))"
    by blast
  then show ?thesis
    using run by (cases res) (simp_all add: start_def)
qed

theorem IAR_terminates_within_pool_size_witness:
  "IAR toy std_config False 0 pool4 start =
     (Inr pool3,
      \<lparr>logFile = Closed,
       contents = [header,
                   Row 0 [''a'', ''b'', ''c'', ''d''] [0, 0, 0, flat_excess]
                     (Finite (5 * flat_excess / 8)),
                   Row 1 [''a'', ''b'', ''c''] [flat_excess, flat_excess, flat_excess]
                     (Finite flat_excess)],
       entered = [[''a'', ''b'', ''c'', ''d''], [''a'', ''b'', ''c'']]\<rparr>)"
  using IAR_terminates_within_pool_size
          [where E = toy and cfg = std_config and ss = False and atlasSet = pool4]
        run_to_the_end
  by simp

subsection \<open>The outlier threshold\<close>

lemma keepIdList_iff:
  assumes "length ids = length RL" and "distinct ids" and "j < length ids"
  shows "(ids ! j \<in> set (keepIdList ids RL limit)) = np_le (RL ! j) limit"
proof
  assume "ids ! j \<in> set (keepIdList ids RL limit)"
  then obtain p where p: "p \<in> set (zip ids RL)" "np_le (snd p) limit" "fst p = ids ! j"
    by (auto simp: keepIdList_def)
  from p(1) obtain i where i: "i < length ids" "p = (ids ! i, RL ! i)"
    using assms(1) by (auto simp: in_set_zip)
  with p(3) assms have "i = j"
    by (simp add: nth_eq_iff_index_eq)
  with i p(2) show "np_le (RL ! j) limit" by simp
next
  assume "np_le (RL ! j) limit"
  moreover have "(ids ! j, RL ! j) \<in> set (zip ids RL)"
    using assms by (auto simp: in_set_zip)
  ultimately show "ids ! j \<in> set (keepIdList ids RL limit)"
    by (force simp: keepIdList_def)
qed

lemma percentile_nonempty: "a \<noteq> [] \<Longrightarrow> \<exists>p. percentile a q = Inr p"
  by (simp add: percentile_def Let_def)

text \<open>
  C7. Under the IQR rule, with \<open>N\<close> Q-values, one per identifier of the pool, and
  \<open>k = max(minBestAtlases, N - 3)\<close> positive: the threshold is computed over the first
  \<open>k\<close> of the Q-values in increasing order (all of them when there are fewer than
  \<open>k\<close>); it is the 75th percentile of these plus \<^verbatim>\<open>N_factor\<close> times the difference
  between their 75th and 25th percentiles; an atlas is kept exactly when its Q-value is at
  most the threshold, so it is removed exactly when its Q-value is strictly above it.
\<close>

theorem outlier_threshold_rule:
  assumes "lower (outlierMethod cfg) = ''iqr''"
    and "length ids = length RL" and "distinct ids" and "RL \<noteq> []"
    and "0 < max (minBestAtlases cfg) (int (length RL) - 3)"
  shows "\<exists>p75 p25.
           bestResults cfg RL =
             take (nat (max (minBestAtlases cfg) (int (length RL) - 3))) (sort RL) \<and>
           percentile (bestResults cfg RL) 75 = Inr p75 \<and>
           percentile (bestResults cfg RL) 25 = Inr p25 \<and>
           outlierLimit cfg RL = Inr (Finite (p75 + N_factor cfg * (p75 - p25))) \<and>
           (\<forall>j < length ids.
              (ids ! j \<in> set (keepIdList ids RL (Finite (p75 + N_factor cfg * (p75 - p25)))))
                = (RL ! j \<le> p75 + N_factor cfg * (p75 - p25)))"
proof -
  let ?k = "max (minBestAtlases cfg) (int (length RL) - 3)"
  have best: "bestResults cfg RL = take (nat ?k) (sort RL)"
    using assms(5) by (simp add: bestResults_def slice_to_def)
  have "sort RL \<noteq> []"
    using assms(4) by (metis length_sort length_0_conv)
  moreover obtain n where "nat ?k = Suc n"
    using assms(5) by (cases "nat ?k") auto
  ultimately have "bestResults cfg RL \<noteq> []"
    unfolding best by (cases "sort RL") simp_all
  then obtain p75 p25 where p: "percentile (bestResults cfg RL) 75 = Inr p75"
      "percentile (bestResults cfg RL) 25 = Inr p25"
    using percentile_nonempty by blast
  have "outlierLimit cfg RL = Inr (Finite (p75 + N_factor cfg * (p75 - p25)))"
    using assms(1) p by (simp add: outlierLimit_def)
  moreover have "\<forall>j < length ids.
      (ids ! j \<in> set (keepIdList ids RL (Finite (p75 + N_factor cfg * (p75 - p25)))))
        = (RL ! j \<le> p75 + N_factor cfg * (p75 - p25))"
    using assms(2,3) by (simp add: keepIdList_iff np_le_def)
  ultimately show ?thesis
    using best p by blast
qed


theorem outlier_threshold_rule_witness:
  "bestResults (defaults\<lparr>minBestAtlases := 3\<rparr>) [100, 2, 4, 1, 3, 5, 8] = [1, 2, 3, 4] \<and>
   outlierLimit (defaults\<lparr>minBestAtlases := 3\<rparr>) [100, 2, 4, 1, 3, 5, 8] = Inr (Finite (11 / 2)) \<and>
   keepIdList [''a'', ''b'', ''c'', ''d'', ''e'', ''f'', ''g''] [100, 2, 4, 1, 3, 5, 8]
     (Finite (11 / 2)) = [''b'', ''c'', ''d'', ''e'', ''f'']"
  using outlier_threshold_rule [of "defaults\<lparr>minBestAtlases := 3\<rparr>"
          "[''a'', ''b'', ''c'', ''d'', ''e'', ''f'', ''g'']" "[100, 2, 4, 1, 3, 5, 8]"]
  by (simp add: bestResults_def slice_to_def outlierLimit_def percentile_def keepIdList_def
      np_le_def defaults_def lower_def lower_char_def)

subsection \<open>The log file at the end of a run\<close>

lemma logFile_log_write:
  "logFile st = Opened \<Longrightarrow> \<exists>st'. log_write st line = Inr st' \<and> logFile st' = Opened"
  by (simp add: log_write_def)

lemma IAR_logFile:
  "k = 0 \<or> logFile st = Opened \<Longrightarrow> IAR E cfg ss k atlasSet st = (res, st') \<Longrightarrow>
     logFile st' =
       (case res of
          Inl e \<Rightarrow> Opened
        | Inr final \<Rightarrow> if ss \<and> length final < length atlasSet then Opened else Closed)"
proof (induction E cfg ss k atlasSet st arbitrary: res st' rule: IAR.induct)
  case (1 E cfg ss k atlasSet st)
  let ?st1 = "if k = 0 then st\<lparr>logFile := Opened, contents := [header]\<rparr> else st"
  let ?ids = "map fst atlasSet"
  let ?st2 = "?st1\<lparr>entered := entered ?st1 @ [?ids]\<rparr>"
  have o2: "logFile ?st2 = Opened"
    using "1.prems"(1) by auto
  note run = "1.prems"(2) [unfolded IAR.simps [of E cfg ss k atlasSet st] Let_def]
  show ?case
  proof (cases "QResults E cfg atlasSet")
    case (Inl e)
    with run have "st' = ?st2" and "res = Inl e" by simp_all
    with o2 show ?thesis by simp
  next
    case RL: (Inr RL)
    show ?thesis
    proof (cases "outlierLimit cfg RL")
      case (Inl e)
      with run RL have "st' = ?st2" and "res = Inl e" by simp_all
      with o2 show ?thesis by simp
    next
      case lim: (Inr limit)
      obtain st3 where w: "log_write ?st2 (Row k ?ids RL limit) = Inr st3"
        and o3: "logFile st3 = Opened"
        using logFile_log_write [OF o2] by blast
      let ?keep = "keepIdList ?ids RL limit"
      let ?new = "map (\<lambda>i. (i, the (map_of atlasSet i))) ?keep"
      show ?thesis
      proof (cases "length ?keep < length ?ids")
        case False
        with run RL lim w have "st' = st3\<lparr>logFile := Closed\<rparr>" and "res = Inr atlasSet"
          by simp_all
        then show ?thesis by simp
      next
        case shorter: True
        show ?thesis
        proof (cases ss)
          case True
          with run RL lim w shorter have "st' = st3" and "res = Inr ?new" by simp_all
          with o3 shorter True show ?thesis by simp
        next
          case False
          with run RL lim w shorter
          have rec: "IAR E cfg False (k + 1) ?new st3 = (res, st')" by simp
          have "logFile st' =
              (case res of
                 Inl e \<Rightarrow> Opened
               | Inr final \<Rightarrow> if False \<and> length final < length ?new then Opened else Closed)"
            using "1.IH" [OF refl refl refl RL lim w shorter refl False _ rec] o3 by simp
          with False show ?thesis by (cases res) simp_all
        qed
      qed
    qed
  qed
qed

text \<open>
  C6. The claim: on every path that ends the run the log file is closed. At the end of a
  run started at iteration 0 the file is closed only after the return of the iteration
  that removed nothing (line 405). It is still open when the run ends with
  \<^verbatim>\<open>sys.exit()\<close> or with an exception of a collaborator, and when single-step mode
  returns the reduced pool (line 399).
\<close>

theorem log_closed_only_on_terminal_return:
  "case IAR E cfg ss 0 atlasSet start of
     (res, st) \<Rightarrow>
       logFile st =
         (case res of
            Inl e \<Rightarrow> Opened
          | Inr final \<Rightarrow> if ss \<and> length final < length atlasSet then Opened else Closed)"
proof -
  obtain res st where run: "IAR E cfg ss 0 atlasSet start = (res, st)"
    by (cases "IAR E cfg ss 0 atlasSet start")
  from IAR_logFile [OF _ run] show ?thesis
    using run by simp
qed

theorem log_left_open_witness:
  "IAR toy std_config True 0 pool4 start =
     (Inr pool3,
      \<lparr>logFile = Opened,
       contents = [header, Row 0 [''a'', ''b'', ''c'', ''d''] [0, 0, 0, flat_excess]
                             (Finite (5 * flat_excess / 8))],
       entered = [[''a'', ''b'', ''c'', ''d'']]\<rparr>)"
  using log_closed_only_on_terminal_return
          [where E = toy and cfg = std_config and ss = True and atlasSet = pool4]
        run_single_step
  by simp

lemma toy_surface_one: "surface_grids toy r [(''a'', [1])] = Inr [[1]]"
  by (simp add: surface_grids_def toy_def processProbabilityImage_def normalise_def BinaryThreshold_def np_divide_def amax_def)

lemma exit_leaves_log_open:
  "IAR toy (defaults\<lparr>zScore := ''bogus''\<rparr>) False 0 [(''a'', [1])] start =
     (Inl SystemExit, \<lparr>logFile = Opened, contents = [header], entered = [[''a'']]\<rparr>)"
  by (simp add: IAR.simps QResults_def toy_surface_one zScoreVals_def Q_atlas_def defaults_def
      lower_def lower_char_def start_def upt_rec)

subsection \<open>Unrecognised method names\<close>

lemma Q_loop_bad_zScore:
  assumes "lower (zScore cfg) \<noteq> ''std''" and "lower (zScore cfg) \<noteq> ''mad''"
  shows "Q_loop E cfg gValList (j # js) = Inl SystemExit"
  using assms by (simp add: Q_atlas_def zScoreVals_def Let_def)

lemma upt_Cons_pos: "0 < n \<Longrightarrow> [0..<n] = 0 # [1..<n]"
  by (simp add: upt_rec)

lemma QResults_bad_zScore:
  assumes "lower (zScore cfg) \<noteq> ''std''" and "lower (zScore cfg) \<noteq> ''mad''"
    and "atlasSet \<noteq> []"
  shows "\<exists>e. QResults E cfg atlasSet = Inl e \<and>
           ((\<exists>g. surface_grids E (resolution (length atlasSet)) atlasSet = Inr g) \<longrightarrow>
              e = SystemExit)"
proof (cases "surface_grids E (resolution (length atlasSet)) atlasSet")
  case (Inl e)
  then show ?thesis by (simp add: QResults_def)
next
  case (Inr g)
  then have "0 < length g"
    using assms(3) by (simp add: surface_grids_length)
  then have "Q_loop E cfg g [0..<length g] = Inl SystemExit"
    using assms(1,2) by (simp add: upt_Cons_pos Q_loop_bad_zScore del: Q_loop.simps)
  with Inr show ?thesis by (simp add: QResults_def)
qed

lemma zScoreVals_outlierMethod:
  "zScoreVals E (cfg\<lparr>outlierMethod := m\<rparr>) gValList i = zScoreVals E cfg gValList i"
  by (simp add: zScoreVals_def cong: if_cong)

lemma Q_atlas_outlierMethod:
  "Q_atlas E (cfg\<lparr>outlierMethod := m\<rparr>) gValList i = Q_atlas E cfg gValList i"
  by (simp add: Q_atlas_def zScoreVals_outlierMethod)

lemma Q_loop_outlierMethod:
  "Q_loop E (cfg\<lparr>outlierMethod := m\<rparr>) gValList js = Q_loop E cfg gValList js"
  by (induction js) (simp_all add: Q_atlas_outlierMethod cong: sum.case_cong)

lemma QResults_outlierMethod:
  "QResults E (cfg\<lparr>outlierMethod := m\<rparr>) atlasSet = QResults E cfg atlasSet"
  by (simp add: QResults_def Q_loop_outlierMethod cong: sum.case_cong)

lemma toy_grids_empty: "surface_grids toy r [] = Inr []"
  by (simp add: surface_grids_def toy_def processProbabilityImage_def normalise_def
      BinaryThreshold_def np_divide_def amax_def)

text \<open>
  C5, as stated: every run configured with an unrecognised outlier method, or with an
  unrecognised Z-score method, ends at once with the fatal configuration error, no result
  and a log of the header only. It fails twice. The Z-score method is read inside the
  loop over the atlases: on an empty pool it is never read, and with the outlier method
  STD the run writes a row and returns. The outlier method is read after the Q-values of
  the first iteration: when the fit raises first, the run ends with that exception and
  not with \<^verbatim>\<open>sys.exit()\<close>.
\<close>

theorem unrecognised_method_counterexample:
  "IAR toy (defaults\<lparr>zScore := ''bogus'', outlierMethod := ''std''\<rparr>) False 0 [] start =
     (Inr [], \<lparr>logFile = Closed, contents = [header, Row 0 [] [] NaN], entered = [[]]\<rparr>) \<and>
   IAR (toy\<lparr>curve_fit := (\<lambda>xdata ydata. Inl ValueError)\<rparr>)
       (std_config\<lparr>outlierMethod := ''bogus''\<rparr>) False 0 pool4 start =
     (Inl ValueError,
      \<lparr>logFile = Opened, contents = [header], entered = [[''a'', ''b'', ''c'', ''d'']]\<rparr>)"
proof -
  have g: "surface_grids (toy\<lparr>curve_fit := (\<lambda>xdata ydata. Inl ValueError)\<rparr>) 3 pool4 =
      Inr [[1, 1], [1, 1], [1, 1], [1, 0]]"
    by (simp add: surface_grids_def toy_def processProbabilityImage_def normalise_def
        BinaryThreshold_def np_divide_def amax_def pool4_def)
  have z: "lower (zScore (std_config\<lparr>outlierMethod := ''bogus''\<rparr>)) = ''std''"
    by (simp add: lower_std)
  have "Q_atlas (toy\<lparr>curve_fit := (\<lambda>xdata ydata. Inl ValueError)\<rparr>)
      (std_config\<lparr>outlierMethod := ''bogus''\<rparr>) gValList 0 = Inl ValueError" for gValList
    by (simp add: Q_atlas_def zScoreVals_def Let_def lower_std)
  then have q: "QResults (toy\<lparr>curve_fit := (\<lambda>xdata ydata. Inl ValueError)\<rparr>)
      (std_config\<lparr>outlierMethod := ''bogus''\<rparr>) pool4 = Inl ValueError"
    using g by (simp add: QResults_def resolution_def pool4_def upt_rec)
  have e: "QResults toy (defaults\<lparr>zScore := ''bogus'', outlierMethod := ''std''\<rparr>) [] = Inr []"
    by (simp add: QResults_def toy_grids_empty)
  have l: "outlierLimit (defaults\<lparr>zScore := ''bogus'', outlierMethod := ''std''\<rparr>) [] = Inr NaN"
    by (simp add: outlierLimit_def bestResults_def slice_to_def lower_def lower_char_def)
  show ?thesis
    by (simp add: IAR.simps [of _ _ _ _ "[]"] IAR.simps [of _ _ _ _ pool4] q e l keepIdList_def
        log_write_def start_def Let_def pool4_def [symmetric])
       (simp add: pool4_def)
qed

lemma QResults_bad_zScore_exits:
  assumes "lower (zScore cfg) \<noteq> ''std''" and "lower (zScore cfg) \<noteq> ''mad''"
    and "atlasSet \<noteq> []"
    and "surface_grids E (resolution (length atlasSet)) atlasSet = Inr gValList"
  shows "QResults E cfg atlasSet = Inl SystemExit"
  using QResults_bad_zScore [OF assms(1-3), of E] assms(4) by auto

text \<open>
  C5, amended: a run from iteration 0 ends with \<^verbatim>\<open>sys.exit()\<close>, no result and a log
  of the header only when the outlier method is unrecognised and the first iteration
  obtains its Q-values, and when the Z-score method is unrecognised, the pool is not empty
  and the first iteration obtains its surface grids. Whenever the outlier method is
  unrecognised, or the Z-score method is and the pool is not empty, the run ends with an
  exception, no result and a log of the header only.
\<close>

theorem unrecognised_method_exits:
  "(lower (outlierMethod cfg) \<noteq> ''iqr'' \<and> lower (outlierMethod cfg) \<noteq> ''std'' \<and>
    QResults E cfg atlasSet = Inr RL \<longrightarrow>
      IAR E cfg ss 0 atlasSet start =
        (Inl SystemExit,
         \<lparr>logFile = Opened, contents = [header], entered = [map fst atlasSet]\<rparr>)) \<and>
   (lower (zScore cfg) \<noteq> ''std'' \<and> lower (zScore cfg) \<noteq> ''mad'' \<and> atlasSet \<noteq> [] \<and>
    surface_grids E (resolution (length atlasSet)) atlasSet = Inr gValList \<longrightarrow>
      IAR E cfg ss 0 atlasSet start =
        (Inl SystemExit,
         \<lparr>logFile = Opened, contents = [header], entered = [map fst atlasSet]\<rparr>)) \<and>
   ((lower (outlierMethod cfg) \<noteq> ''iqr'' \<and> lower (outlierMethod cfg) \<noteq> ''std'') \<or>
    (lower (zScore cfg) \<noteq> ''std'' \<and> lower (zScore cfg) \<noteq> ''mad'' \<and> atlasSet \<noteq> []) \<longrightarrow>
      (\<exists>e. IAR E cfg ss 0 atlasSet start =
        (Inl e, \<lparr>logFile = Opened, contents = [header], entered = [map fst atlasSet]\<rparr>)))"
proof (intro conjI impI)
  assume "lower (outlierMethod cfg) \<noteq> ''iqr'' \<and> lower (outlierMethod cfg) \<noteq> ''std'' \<and>
    QResults E cfg atlasSet = Inr RL"
  then have "outlierLimit cfg RL = Inl SystemExit" and "QResults E cfg atlasSet = Inr RL"
    by (simp_all add: outlierLimit_def)
  then show "IAR E cfg ss 0 atlasSet start =
      (Inl SystemExit, \<lparr>logFile = Opened, contents = [header], entered = [map fst atlasSet]\<rparr>)"
    by (simp add: IAR.simps start_def)
next
  assume "lower (zScore cfg) \<noteq> ''std'' \<and> lower (zScore cfg) \<noteq> ''mad'' \<and> atlasSet \<noteq> [] \<and>
    surface_grids E (resolution (length atlasSet)) atlasSet = Inr gValList"
  then have "QResults E cfg atlasSet = Inl SystemExit"
    using QResults_bad_zScore_exits by blast
  then show "IAR E cfg ss 0 atlasSet start =
      (Inl SystemExit, \<lparr>logFile = Opened, contents = [header], entered = [map fst atlasSet]\<rparr>)"
    by (simp add: IAR.simps start_def)
next
  assume bad: "(lower (outlierMethod cfg) \<noteq> ''iqr'' \<and> lower (outlierMethod cfg) \<noteq> ''std'') \<or>
    (lower (zScore cfg) \<noteq> ''std'' \<and> lower (zScore cfg) \<noteq> ''mad'' \<and> atlasSet \<noteq> [])"
  show "\<exists>e. IAR E cfg ss 0 atlasSet start =
      (Inl e, \<lparr>logFile = Opened, contents = [header], entered = [map fst atlasSet]\<rparr>)"
  proof (cases "QResults E cfg atlasSet")
    case (Inl e)
    then show ?thesis
      by (simp add: IAR.simps start_def)
  next
    case (Inr RL)
    have "\<not> (lower (zScore cfg) \<noteq> ''std'' \<and> lower (zScore cfg) \<noteq> ''mad'' \<and> atlasSet \<noteq> [])"
      using QResults_bad_zScore [of cfg atlasSet E] Inr by auto
    with bad have "outlierLimit cfg RL = Inl SystemExit"
      by (simp add: outlierLimit_def)
    with Inr show ?thesis
      by (simp add: IAR.simps start_def)
  qed
qed

theorem unrecognised_method_exits_witness:
  "IAR toy (std_config\<lparr>outlierMethod := ''bogus''\<rparr>) False 0 pool4 start =
     (Inl SystemExit,
      \<lparr>logFile = Opened, contents = [header], entered = [[''a'', ''b'', ''c'', ''d'']]\<rparr>) \<and>
   IAR toy (defaults\<lparr>zScore := ''bogus''\<rparr>) False 0 pool4 start =
     (Inl SystemExit,
      \<lparr>logFile = Opened, contents = [header], entered = [[''a'', ''b'', ''c'', ''d'']]\<rparr>)"
proof -
  have q: "QResults toy (std_config\<lparr>outlierMethod := ''bogus''\<rparr>) pool4 =
      Inr [0, 0, 0, flat_excess]"
    by (simp add: QResults_outlierMethod Q4)
  have o: "lower (outlierMethod (std_config\<lparr>outlierMethod := ''bogus''\<rparr>)) \<noteq> ''iqr'' \<and>
      lower (outlierMethod (std_config\<lparr>outlierMethod := ''bogus''\<rparr>)) \<noteq> ''std''"
    by (simp add: lower_def lower_char_def)
  have z: "lower (zScore (defaults\<lparr>zScore := ''bogus''\<rparr>)) \<noteq> ''std'' \<and>
      lower (zScore (defaults\<lparr>zScore := ''bogus''\<rparr>)) \<noteq> ''mad''"
    by (simp add: lower_def lower_char_def)
  have g: "surface_grids toy (resolution (length pool4)) pool4 = Inr [[1, 1], [1, 1], [1, 1], [1, 0]]"
    by (rule toy_grids4)
  have n: "pool4 \<noteq> []" and ids: "map fst pool4 = [''a'', ''b'', ''c'', ''d'']"
    by (simp_all add: pool4_def)
  show ?thesis
    using unrecognised_method_exits
            [where E = toy and cfg = "std_config\<lparr>outlierMethod := ''bogus''\<rparr>"
               and ss = False and atlasSet = pool4 and RL = "[0, 0, 0, flat_excess]"]
          unrecognised_method_exits
            [where E = toy and cfg = "defaults\<lparr>zScore := ''bogus''\<rparr>"
               and ss = False and atlasSet = pool4
               and gValList = "[[1, 1], [1, 1], [1, 1], [1, 0]]"]
          q o z g n
    by (simp add: ids)
qed

end
